theory Spec2Isabelle
  imports Main "HOL-Library.Sublist"
begin

section \<open>Data model\<close>

text \<open>
  A contact record (\<open>ContactRecord\<close> of the data module). The fields carry the prefix
  \<open>c_\<close> because \<open>id\<close> and \<open>last\<close> are constants of HOL. \<open>createdAt\<close> is a counter value.
\<close>

record contact =
  c_id :: string
  c_first :: string
  c_last :: string
  c_twitter :: string
  c_avatar :: string
  c_notes :: string
  c_favorite :: bool
  c_createdAt :: nat

text \<open>
  The second argument of \<open>updateContact\<close> is an object: a value for each key it has. The
  routes build two kinds of value: a text (a form entry) and a boolean (\<open>favorite\<close> of the
  favorite button's action).
\<close>

datatype js_value = Text string | Flag bool

type_synonym fields = "string \<rightharpoonup> js_value"

text \<open>
  The store: the contacts in insertion order, and the counter that ids and creation times
  are drawn from (it only grows, so an id is never used twice).
\<close>

record store =
  records :: "contact list"
  counter :: nat

text \<open>
  What a request can fail with. \<open>invariant\<close> throwing is \<open>ValidationError\<close>; the loaders'
  \<open>throw new Response("Not Found", { status: 404 })\<close> is \<open>NotFoundError\<close>.
\<close>

datatype error = ValidationError | NotFoundError | StoreError

text \<open>
  Form data is the list of submitted (name, value) entries, in order. The forms of the
  application have text inputs and buttons only, so every value is a string.
\<close>

type_synonym form_data = "(string \<times> string) list"

text \<open>\<open>formData.get(name)\<close>: the first value of that name, or null.\<close>

definition formData_get :: "form_data \<Rightarrow> string \<Rightarrow> string option" where
  "formData_get fd name = map_of fd name"

text \<open>\<open>Object.fromEntries(formData)\<close>: an object keyed by name; a later entry overwrites.\<close>

definition fromEntries :: "form_data \<Rightarrow> fields" where
  "fromEntries fd = (\<lambda>key. map_option Text (map_of (rev fd) key))"

text \<open>What an action returns: a redirect, or the record \<open>updateContact\<close> resolved to.\<close>

datatype action_result = Redirect string | Data contact

section \<open>The contact store\<close>

fun lower_char :: "char \<Rightarrow> char" where
  "lower_char c =
     (let n = (of_char c :: nat) in if 65 \<le> n \<and> n \<le> 90 then char_of (n + 32) else c)"

definition lower :: "string \<Rightarrow> string" where
  "lower s = map lower_char s"

text \<open>\<open>includes_str s t\<close>: the text \<open>t\<close> contains \<open>s\<close> as a contiguous substring.\<close>

fun includes_str :: "string \<Rightarrow> string \<Rightarrow> bool" where
  "includes_str s [] = (s = [])"
| "includes_str s (c # t) = (prefix s (c # t) \<or> includes_str s t)"

definition matches :: "string \<Rightarrow> contact \<Rightarrow> bool" where
  "matches q c =
     (includes_str (lower q) (lower (c_first c)) \<or> includes_str (lower q) (lower (c_last c)))"

text \<open>
  Modelled from the spec: the data module (\<open>./data\<close>: \<open>getContacts\<close>, \<open>getContact\<close>,
  \<open>createEmptyContact\<close>, \<open>updateContact\<close>, \<open>deleteContact\<close>) is imported by the routes
  and is not among the sources. \<open>list(query)\<close>: a null query returns all contacts; a
  query returns the contacts whose \<open>first\<close> or \<open>last\<close> contains it as a case-insensitive
  substring, in insertion order.
\<close>

definition getContacts :: "string option \<Rightarrow> store \<Rightarrow> contact list" where
  "getContacts query s =
     (case query of None \<Rightarrow> records s | Some q \<Rightarrow> filter (matches q) (records s))"

text \<open>
  Modelled from the spec: \<open>get(id)\<close> of the missing data module. The loaders test its
  result with \<open>if (!contact)\<close>, so a contact that does not exist is \<open>None\<close> here and
  becomes the not-found failure in the loader.
\<close>

definition getContact :: "store \<Rightarrow> string \<Rightarrow> contact option" where
  "getContact s i = find (\<lambda>c. c_id c = i) (records s)"

text \<open>An opaque identifier made from the counter.\<close>

definition fresh_id :: "nat \<Rightarrow> string" where
  "fresh_id n = CHR ''c'' # replicate n (CHR ''x'')"

definition empty_contact :: "nat \<Rightarrow> contact" where
  "empty_contact n =
     \<lparr>c_id = fresh_id n, c_first = [], c_last = [], c_twitter = [], c_avatar = [],
      c_notes = [], c_favorite = False, c_createdAt = n\<rparr>"

text \<open>
  Modelled from the spec: \<open>create()\<close> of the missing data module returns a freshly
  generated empty contact (all text fields blank, \<open>favorite = false\<close>) and appends it.
\<close>

definition createEmptyContact :: "store \<Rightarrow> contact \<times> store" where
  "createEmptyContact s =
     (let c = empty_contact (counter s)
      in (c, \<lparr>records = records s @ [c], counter = Suc (counter s)\<rparr>))"

text \<open>
  Modelled from the spec: the field-level merge of \<open>update\<close>. A field changes when the
  object has a value under the field's name and keeps its value otherwise; \<open>id\<close> and
  \<open>createdAt\<close> are never altered, whatever the object holds. A text field takes a text as
  it is and \<open>favorite\<close> a boolean as it is; a value of the other kind (which only a form
  that is not one of the application's can send) is taken as JavaScript reads it where a
  text or a condition is expected.
\<close>

fun text_of :: "js_value \<Rightarrow> string" where
  "text_of (Text v) = v"
| "text_of (Flag b) = (if b then ''true'' else ''false'')"

fun truthy :: "js_value \<Rightarrow> bool" where
  "truthy (Flag b) = b"
| "truthy (Text v) = (v \<noteq> [])"

definition text_field :: "fields \<Rightarrow> string \<Rightarrow> string \<Rightarrow> string" where
  "text_field obj key old = (case obj key of None \<Rightarrow> old | Some v \<Rightarrow> text_of v)"

definition flag_field :: "fields \<Rightarrow> string \<Rightarrow> bool \<Rightarrow> bool" where
  "flag_field obj key old = (case obj key of None \<Rightarrow> old | Some v \<Rightarrow> truthy v)"

definition merge :: "fields \<Rightarrow> contact \<Rightarrow> contact" where
  "merge obj c =
     c\<lparr>c_first := text_field obj ''first'' (c_first c),
       c_last := text_field obj ''last'' (c_last c),
       c_twitter := text_field obj ''twitter'' (c_twitter c),
       c_avatar := text_field obj ''avatar'' (c_avatar c),
       c_notes := text_field obj ''notes'' (c_notes c),
       c_favorite := flag_field obj ''favorite'' (c_favorite c)\<rparr>"

text \<open>
  Modelled from the spec: \<open>update(id, partialFields)\<close> of the missing data module fails
  with \<open>NotFoundError\<close> when the id does not exist, and otherwise merges the supplied
  fields into the record, in place, and returns the merged record.
\<close>

definition updateContact ::
  "store \<Rightarrow> string \<Rightarrow> fields \<Rightarrow> (error + contact) \<times> store" where
  "updateContact s i m =
     (case getContact s i of
        None \<Rightarrow> (Inl NotFoundError, s)
      | Some c \<Rightarrow>
          (Inr (merge m c),
           s\<lparr>records := map (\<lambda>x. if c_id x = i then merge m x else x) (records s)\<rparr>))"

text \<open>
  Modelled from the spec: \<open>delete(id)\<close> of the missing data module fails with
  \<open>NotFoundError\<close> when the id does not exist, and otherwise removes the contact.
\<close>

definition deleteContact :: "store \<Rightarrow> string \<Rightarrow> (error + unit) \<times> store" where
  "deleteContact s i =
     (case getContact s i of
        None \<Rightarrow> (Inl NotFoundError, s)
      | Some c \<Rightarrow> (Inr (), s\<lparr>records := filter (\<lambda>x. c_id x \<noteq> i) (records s)\<rparr>))"

section \<open>The routes\<close>

text \<open>
  \<open>invariant(params.contactId, "Missing contactId param")\<close> throws unless the parameter
  is truthy: it throws when the parameter is undefined and when it is the empty string.
\<close>

definition invariant :: "string option \<Rightarrow> error + string" where
  "invariant p =
     (case p of
        None \<Rightarrow> Inl ValidationError
      | Some v \<Rightarrow> if v = [] then Inl ValidationError else Inr v)"

subsection \<open>\<open>root.tsx\<close>\<close>

text \<open>
  A location: the path and the parsed query string. \<open>searchParams_get\<close> is
  \<open>url.searchParams.get(name)\<close>: the first value of the name, or null.
\<close>

record location =
  pathname :: string
  search :: "(string \<times> string) list"

definition searchParams_get :: "location \<Rightarrow> string \<Rightarrow> string option" where
  "searchParams_get url name = map_of (search url) name"

text \<open>The root \<open>action\<close>: create an empty contact and redirect to its edit page.\<close>

definition root_action :: "store \<Rightarrow> (error + action_result) \<times> store" where
  "root_action s =
     (let (c, s') = createEmptyContact s
      in (Inr (Redirect (''/contacts/'' @ c_id c @ ''/edit'')), s'))"

text \<open>The root \<open>loader\<close>: the contacts matching the query parameter \<open>q\<close>, and \<open>q\<close>.\<close>

definition root_loader :: "store \<Rightarrow> location \<Rightarrow> contact list \<times> string option" where
  "root_loader s url = (let q = searchParams_get url ''q'' in (getContacts q s, q))"

subsection \<open>\<open>contacts.$contactId.tsx\<close>\<close>

text \<open>The \<open>action\<close> of the favorite button.\<close>

definition favorite_update :: "bool \<Rightarrow> fields" where
  "favorite_update b = [''favorite'' \<mapsto> Flag b]"

definition contact_action ::
  "store \<Rightarrow> string option \<Rightarrow> form_data \<Rightarrow> (error + action_result) \<times> store" where
  "contact_action s contactId fd =
     (case invariant contactId of
        Inl e \<Rightarrow> (Inl e, s)
      | Inr i \<Rightarrow>
          (case updateContact s i
                  (favorite_update (formData_get fd ''favorite'' = Some ''true'')) of
             (Inl e, s') \<Rightarrow> (Inl e, s')
           | (Inr c, s') \<Rightarrow> (Inr (Data c), s')))"

text \<open>The \<open>loader\<close> of the contact page; the edit page's \<open>loader\<close> is the same function.\<close>

definition contact_loader :: "store \<Rightarrow> string option \<Rightarrow> error + contact" where
  "contact_loader s contactId =
     (case invariant contactId of
        Inl e \<Rightarrow> Inl e
      | Inr i \<Rightarrow>
          (case getContact s i of None \<Rightarrow> Inl NotFoundError | Some c \<Rightarrow> Inr c))"

definition edit_loader :: "store \<Rightarrow> string option \<Rightarrow> error + contact" where
  "edit_loader s contactId =
     (case invariant contactId of
        Inl e \<Rightarrow> Inl e
      | Inr i \<Rightarrow>
          (case getContact s i of None \<Rightarrow> Inl NotFoundError | Some c \<Rightarrow> Inr c))"

text \<open>
  The state of a fetcher, as the framework's \<open>Fetcher\<close> type has it: idle with no form
  data, submitting with the submitted form data, loading with the form data of the
  submission that is being revalidated (none when the load follows no submission).
\<close>

datatype fetcher = Idle | Submitting form_data | Loading "form_data option"

fun fetcher_formData :: "fetcher \<Rightarrow> form_data option" where
  "fetcher_formData Idle = None"
| "fetcher_formData (Submitting fd) = Some fd"
| "fetcher_formData (Loading fd) = fd"

text \<open>
  The \<open>Favorite\<close> component: \<open>Favorite_favorite\<close> is its constant \<open>favorite\<close>, the value
  it displays; \<open>Favorite_value\<close> is the \<open>value\<close> of its button; \<open>Favorite_submit\<close> is the
  form data that a click on the button submits (the button is the form's only control).
\<close>

definition Favorite_favorite :: "fetcher \<Rightarrow> contact \<Rightarrow> bool" where
  "Favorite_favorite f c =
     (case fetcher_formData f of
        Some fd \<Rightarrow> formData_get fd ''favorite'' = Some ''true''
      | None \<Rightarrow> c_favorite c)"

definition Favorite_value :: "fetcher \<Rightarrow> contact \<Rightarrow> string" where
  "Favorite_value f c = (if Favorite_favorite f c then ''false'' else ''true'')"

definition Favorite_submit :: "fetcher \<Rightarrow> contact \<Rightarrow> form_data" where
  "Favorite_submit f c = [(''favorite'', Favorite_value f c)]"

subsection \<open>\<open>contacts.$contactId_.edit.tsx\<close>\<close>

text \<open>
  The edit \<open>action\<close>: every entry of the submitted form goes into the object that is
  handed to \<open>updateContact\<close>.
\<close>

definition edit_action ::
  "store \<Rightarrow> string option \<Rightarrow> form_data \<Rightarrow> (error + action_result) \<times> store" where
  "edit_action s contactId fd =
     (case invariant contactId of
        Inl e \<Rightarrow> (Inl e, s)
      | Inr i \<Rightarrow>
          (let updates = fromEntries fd in
           case updateContact s i updates of
             (Inl e, s') \<Rightarrow> (Inl e, s')
           | (Inr c, s') \<Rightarrow> (Inr (Redirect (''/contacts/'' @ i)), s')))"

subsection \<open>\<open>contacts.$contactId.destroy.tsx\<close>\<close>

definition destroy_action ::
  "store \<Rightarrow> string option \<Rightarrow> (error + action_result) \<times> store" where
  "destroy_action s contactId =
     (case invariant contactId of
        Inl e \<Rightarrow> (Inl e, s)
      | Inr i \<Rightarrow>
          (case deleteContact s i of
             (Inl e, s') \<Rightarrow> (Inl e, s')
           | (Inr u, s') \<Rightarrow> (Inr (Redirect ''/''), s')))"

section \<open>The search form and the history\<close>

text \<open>
  Modelled from the spec: the history the search form drives (\<open>push(url)\<close>,
  \<open>replace(url)\<close>) belongs to the browser and the framework. It is the stack of entries
  behind the current one (nearest first), the current entry and the entries ahead of it;
  \<open>calls\<close> records the calls made, oldest first.
\<close>

datatype history_call = Push location | Replace location

record history =
  behind :: "location list"
  current :: location
  ahead :: "location list"
  calls :: "history_call list"

definition push :: "location \<Rightarrow> history \<Rightarrow> history" where
  "push url h =
     \<lparr>behind = current h # behind h, current = url, ahead = [], calls = calls h @ [Push url]\<rparr>"

definition replace :: "location \<Rightarrow> history \<Rightarrow> history" where
  "replace url h = h\<lparr>current := url, calls := calls h @ [Replace url]\<rparr>"

definition go_back :: "history \<Rightarrow> history" where
  "go_back h =
     (case behind h of
        [] \<Rightarrow> h
      | b # bs \<Rightarrow> h\<lparr>behind := bs, current := b, ahead := current h # ahead h\<rparr>)"

definition go_forward :: "history \<Rightarrow> history" where
  "go_forward h =
     (case ahead h of
        [] \<Rightarrow> h
      | f # fs \<Rightarrow> h\<lparr>behind := current h # behind h, current := f, ahead := fs\<rparr>)"

text \<open>
  What the \<open>App\<close> component shows: the loader data (\<open>contacts\<close> and \<open>q\<close>) of its last
  render and the text in the search field, an uncontrolled input (\<open>defaultValue\<close>); with
  it, the history of the session.
\<close>

record app =
  contacts :: "contact list"
  q :: "string option"
  searchField :: string
  hist :: history

text \<open>
  The effect of \<open>App\<close>, with dependency \<open>[q]\<close>: after a render in which \<open>q\<close> differs from
  the \<open>q\<close> of the render before, \<open>searchField.value = q || ""\<close>.
\<close>

definition useEffect :: "string option \<Rightarrow> app \<Rightarrow> app" where
  "useEffect previous a =
     (if q a \<noteq> previous
      then a\<lparr>searchField := (case q a of None \<Rightarrow> [] | Some v \<Rightarrow> v)\<rparr>
      else a)"

text \<open>
  A navigation has arrived at the current entry of the history: the root \<open>loader\<close> runs
  for it, \<open>App\<close> renders with the data, and then its effect runs.
\<close>

definition render :: "store \<Rightarrow> app \<Rightarrow> app" where
  "render s a =
     (let (cs, q') = root_loader s (current (hist a))
      in useEffect (q a) (a\<lparr>contacts := cs, q := q'\<rparr>))"

text \<open>
  \<open>submit(form, { replace })\<close> of the search form, a GET form of the root route whose one
  input is named \<open>q\<close>: a navigation to the root with the field's text as the query.
\<close>

definition search_location :: "string \<Rightarrow> location" where
  "search_location text = \<lparr>pathname = ''/'', search = [(''q'', text)]\<rparr>"

definition submit :: "store \<Rightarrow> string \<Rightarrow> bool \<Rightarrow> app \<Rightarrow> app" where
  "submit s text rep a =
     render s (a\<lparr>hist := (if rep then replace else push) (search_location text) (hist a)\<rparr>)"

text \<open>
  The \<open>onChange\<close> handler of the search form, after the user has changed the field's text
  to \<open>text\<close>.
\<close>

definition onChange :: "store \<Rightarrow> string \<Rightarrow> app \<Rightarrow> app" where
  "onChange s text a =
     (let isFirstSearch = (q a = None)
      in submit s text (\<not> isFirstSearch) (a\<lparr>searchField := text\<rparr>))"

text \<open>The user presses the browser's back or forward button.\<close>

definition navigate_back :: "store \<Rightarrow> app \<Rightarrow> app" where
  "navigate_back s a = render s (a\<lparr>hist := go_back (hist a)\<rparr>)"

definition navigate_forward :: "store \<Rightarrow> app \<Rightarrow> app" where
  "navigate_forward s a = render s (a\<lparr>hist := go_forward (hist a)\<rparr>)"

text \<open>A session that starts at a location: the first render, whose effect always runs.\<close>

definition start :: "store \<Rightarrow> location \<Rightarrow> app" where
  "start s url =
     (let (cs, q') = root_loader s url
      in \<lparr>contacts = cs, q = q',
          searchField = (case q' of None \<Rightarrow> [] | Some v \<Rightarrow> v),
          hist = \<lparr>behind = [], current = url, ahead = [], calls = []\<rparr>\<rparr>)"

text \<open>A store for examples: two contacts, the second a favorite.\<close>

definition alice :: contact where
  "alice =
     \<lparr>c_id = ''c'', c_first = ''Alice'', c_last = ''Kay'', c_twitter = ''@alice'',
      c_avatar = [], c_notes = ''n'', c_favorite = False, c_createdAt = 0\<rparr>"

definition bob :: contact where
  "bob =
     \<lparr>c_id = ''cx'', c_first = ''Bob'', c_last = ''MALIK'', c_twitter = [],
      c_avatar = [], c_notes = [], c_favorite = True, c_createdAt = 1\<rparr>"

definition store0 :: store where
  "store0 = \<lparr>records = [alice, bob], counter = 2\<rparr>"

definition root_location :: location where
  "root_location = \<lparr>pathname = ''/'', search = []\<rparr>"

section \<open>Facts about the store and the routes\<close>

lemma invariant_missing: "invariant None = Inl ValidationError"
  by (simp add: invariant_def)

lemma invariant_empty: "invariant (Some []) = Inl ValidationError"
  by (simp add: invariant_def)

lemma invariant_present: "i \<noteq> [] \<Longrightarrow> invariant (Some i) = Inr i"
  by (simp add: invariant_def)

lemma find_map_id:
  "(\<And>x. c_id (f x) = c_id x) \<Longrightarrow>
   find (\<lambda>c. c_id c = i) (map (\<lambda>x. if c_id x = i then f x else x) xs) =
   map_option f (find (\<lambda>c. c_id c = i) xs)"
  by (induction xs) auto

lemma find_map_other:
  "(\<And>x. c_id (f x) = c_id x) \<Longrightarrow> j \<noteq> i \<Longrightarrow>
   find (\<lambda>c. c_id c = j) (map (\<lambda>x. if c_id x = i then f x else x) xs) =
   find (\<lambda>c. c_id c = j) xs"
  by (induction xs) auto

lemma find_filter_removed:
  "find (\<lambda>c. c_id c = i) (filter (\<lambda>x. c_id x \<noteq> i) xs) = None"
  by (induction xs) auto

lemma find_filter_other:
  "j \<noteq> i \<Longrightarrow>
   find (\<lambda>c. c_id c = j) (filter (\<lambda>x. c_id x \<noteq> i) xs) = find (\<lambda>c. c_id c = j) xs"
  by (induction xs) auto

lemma merge_id: "c_id (merge m c) = c_id c"
  by (simp add: merge_def)

lemma merge_createdAt: "c_createdAt (merge m c) = c_createdAt c"
  by (simp add: merge_def)

lemma merge_favorite_update: "merge (favorite_update b) c = c\<lparr>c_favorite := b\<rparr>"
  by (simp add: merge_def favorite_update_def text_field_def flag_field_def)

lemma getContact_None_iff: "getContact s i = None \<longleftrightarrow> i \<notin> c_id ` set (records s)"
  by (auto simp: getContact_def find_None_iff)

lemma updateContact_found:
  "getContact s i = Some c \<Longrightarrow>
   updateContact s i m =
     (Inr (merge m c),
      s\<lparr>records := map (\<lambda>x. if c_id x = i then merge m x else x) (records s)\<rparr>)"
  by (simp add: updateContact_def)

lemma updateContact_missing:
  "getContact s i = None \<Longrightarrow> updateContact s i m = (Inl NotFoundError, s)"
  by (simp add: updateContact_def)

lemma getContact_updateContact:
  "getContact s i = Some c \<Longrightarrow> getContact (snd (updateContact s i m)) i = Some (merge m c)"
  by (simp add: updateContact_found) (simp add: getContact_def find_map_id merge_id)

lemma getContact_updateContact_other:
  "j \<noteq> i \<Longrightarrow> getContact (snd (updateContact s i m)) j = getContact s j"
  by (cases "getContact s i")
     (simp_all add: updateContact_found updateContact_missing,
      simp add: getContact_def find_map_other merge_id)

lemma deleteContact_found:
  "getContact s i = Some c \<Longrightarrow>
   deleteContact s i = (Inr (), s\<lparr>records := filter (\<lambda>x. c_id x \<noteq> i) (records s)\<rparr>)"
  by (simp add: deleteContact_def)

lemma deleteContact_missing:
  "getContact s i = None \<Longrightarrow> deleteContact s i = (Inl NotFoundError, s)"
  by (simp add: deleteContact_def)

lemma contact_action_found:
  "i \<noteq> [] \<Longrightarrow> getContact s i = Some c \<Longrightarrow>
   contact_action s (Some i) fd =
     (Inr (Data (merge (favorite_update (formData_get fd ''favorite'' = Some ''true'')) c)),
      snd (updateContact s i
             (favorite_update (formData_get fd ''favorite'' = Some ''true''))))"
  by (simp add: contact_action_def invariant_present updateContact_found)

lemma contact_loader_found:
  "i \<noteq> [] \<Longrightarrow> getContact s i = Some c \<Longrightarrow> contact_loader s (Some i) = Inr c"
  by (simp add: contact_loader_def invariant_present)

lemma contact_loader_missing:
  "i \<noteq> [] \<Longrightarrow> getContact s i = None \<Longrightarrow> contact_loader s (Some i) = Inl NotFoundError"
  by (simp add: contact_loader_def invariant_present)

lemma Favorite_value_negates:
  "(formData_get (Favorite_submit f shown) ''favorite'' = Some ''true'') =
   (\<not> Favorite_favorite f shown)"
  by (simp add: Favorite_submit_def Favorite_value_def formData_get_def)

lemma getContact_store0_alice: "getContact store0 ''c'' = Some alice"
  by (simp add: getContact_def store0_def alice_def bob_def)

lemma getContact_store0_bob: "getContact store0 ''cx'' = Some bob"
  by (simp add: getContact_def store0_def alice_def bob_def)

section \<open>A missing contact identifier\<close>

text \<open>
  C7. A request to the favorite toggle, the edit save or the destroy action whose contact
  identifier is missing (undefined, or the empty string, which \<open>invariant\<close> rejects as
  well) fails with \<open>ValidationError\<close>, and the store it returns is the store it was given:
  no store operation has run.
\<close>

theorem missing_contactId_aborts:
  "contact_action s None fd = (Inl ValidationError, s) \<and>
   edit_action s None fd = (Inl ValidationError, s) \<and>
   destroy_action s None = (Inl ValidationError, s) \<and>
   contact_action s (Some []) fd = (Inl ValidationError, s) \<and>
   edit_action s (Some []) fd = (Inl ValidationError, s) \<and>
   destroy_action s (Some []) = (Inl ValidationError, s)"
  by (simp add: contact_action_def edit_action_def destroy_action_def
      invariant_missing invariant_empty)

section \<open>The favorite toggle\<close>

text \<open>
  C10. For an existing contact (of a non-empty id, which \<open>invariant\<close> lets through), the
  action of the favorite button stores the contact with \<open>favorite\<close> set to whether the submitted field \<open>favorite\<close> is exactly the text \<open>true\<close>
  (any other value, or no such field, gives false), and nothing else changed. The button
  of \<open>Favorite\<close> submits \<open>false\<close> when the displayed value is true and \<open>true\<close> when it is
  false, so the action reads the negation of the displayed value from it.
\<close>

theorem favorite_toggle:
  "(i \<noteq> [] \<and> getContact s i = Some c \<longrightarrow>
      fst (contact_action s (Some i) fd) =
        Inr (Data (c\<lparr>c_favorite := (formData_get fd ''favorite'' = Some ''true'')\<rparr>)) \<and>
      getContact (snd (contact_action s (Some i) fd)) i =
        Some (c\<lparr>c_favorite := (formData_get fd ''favorite'' = Some ''true'')\<rparr>)) \<and>
   Favorite_value f shown = (if Favorite_favorite f shown then ''false'' else ''true'') \<and>
   Favorite_submit f shown = [(''favorite'', Favorite_value f shown)] \<and>
   (formData_get (Favorite_submit f shown) ''favorite'' = Some ''true'') =
     (\<not> Favorite_favorite f shown)"
proof -
  have "fst (contact_action s (Some i) fd) =
          Inr (Data (c\<lparr>c_favorite := (formData_get fd ''favorite'' = Some ''true'')\<rparr>)) \<and>
        getContact (snd (contact_action s (Some i) fd)) i =
          Some (c\<lparr>c_favorite := (formData_get fd ''favorite'' = Some ''true'')\<rparr>)"
    if "i \<noteq> []" and "getContact s i = Some c"
    using that
    by (simp add: contact_action_found getContact_updateContact merge_favorite_update)
  then show ?thesis
    by (simp add: Favorite_value_negates) (simp add: Favorite_value_def Favorite_submit_def)
qed

theorem favorite_toggle_witness:
  "''c'' \<noteq> [] \<and> getContact store0 ''c'' = Some alice \<and>
   fst (contact_action store0 (Some ''c'') [(''favorite'', ''true'')]) =
     Inr (Data (alice\<lparr>c_favorite := True\<rparr>)) \<and>
   getContact (snd (contact_action store0 (Some ''c'') [(''favorite'', ''true'')])) ''c'' =
     Some (alice\<lparr>c_favorite := True\<rparr>) \<and>
   getContact (snd (contact_action store0 (Some ''cx'') [(''favorite'', ''yes'')])) ''cx'' =
     Some (bob\<lparr>c_favorite := False\<rparr>) \<and>
   getContact (snd (contact_action store0 (Some ''cx'') [])) ''cx'' =
     Some (bob\<lparr>c_favorite := False\<rparr>) \<and>
   Favorite_submit Idle bob = [(''favorite'', ''false'')]"
  using favorite_toggle [of "''c''" store0 alice "[(''favorite'', ''true'')]" Idle bob]
    favorite_toggle [of "''cx''" store0 bob "[(''favorite'', ''yes'')]" Idle bob]
    favorite_toggle [of "''cx''" store0 bob "[]" Idle bob]
  by (simp add: getContact_store0_alice getContact_store0_bob formData_get_def
      Favorite_favorite_def Favorite_value_def Favorite_submit_def)
    (simp add: bob_def)

section \<open>The optimistic display of the favorite button\<close>




lemma contact_loader_after_action:
  "i \<noteq> [] \<Longrightarrow> getContact s i = Some c \<Longrightarrow>
   contact_loader (snd (contact_action s (Some i) fd)) (Some i) =
     Inr (c\<lparr>c_favorite := (formData_get fd ''favorite'' = Some ''true'')\<rparr>)"
  by (simp add: contact_action_found getContact_updateContact merge_favorite_update
      contact_loader_found)






section \<open>The search form\<close>

lemma q_render: "q (render s a) = searchParams_get (current (hist a)) ''q''"
  by (simp add: render_def useEffect_def root_loader_def Let_def)

lemma hist_render: "hist (render s a) = hist a"
  by (simp add: render_def useEffect_def root_loader_def Let_def)

lemma searchField_render:
  "searchField (render s a) =
     (if searchParams_get (current (hist a)) ''q'' \<noteq> q a
      then (case searchParams_get (current (hist a)) ''q'' of None \<Rightarrow> [] | Some v \<Rightarrow> v)
      else searchField a)"
  by (simp add: render_def useEffect_def root_loader_def Let_def)

lemma searchParams_search_location: "searchParams_get (search_location t) ''q'' = Some t"
  by (simp add: searchParams_get_def search_location_def)

lemma hist_onChange:
  "hist (onChange s t a) =
     (if q a = None then push (search_location t) (hist a)
      else replace (search_location t) (hist a))"
  by (simp add: onChange_def submit_def hist_render Let_def)

lemma current_push: "current (push url h) = url"
  by (simp add: push_def)

lemma current_replace: "current (replace url h) = url"
  by (simp add: replace_def)

lemma q_onChange: "q (onChange s t a) = Some t"
  by (simp add: onChange_def submit_def q_render Let_def current_push current_replace
      searchParams_search_location)

lemma q_start_root: "q (start s root_location) = None"
  by (simp add: start_def root_loader_def Let_def root_location_def searchParams_get_def)

lemma hist_start:
  "hist (start s url) = \<lparr>behind = [], current = url, ahead = [], calls = []\<rparr>"
  by (simp add: start_def root_loader_def Let_def)

text \<open>
  C3. A change of the search field while the query parameter \<open>q\<close> is null pushes a history
  entry; a change while \<open>q\<close> is not null replaces the current entry. After any change \<open>q\<close>
  is the submitted text, so the change that follows another replaces. Starting at the
  root, the queries \<open>a\<close> and then \<open>ab\<close> make one push and one replace: the history holds the
  root and, as current entry, the search for \<open>ab\<close>.
\<close>

theorem search_history:
  "(q a = None \<longrightarrow> hist (onChange s t a) = push (search_location t) (hist a)) \<and>
   (q a \<noteq> None \<longrightarrow> hist (onChange s t a) = replace (search_location t) (hist a)) \<and>
   q (onChange s t a) = Some t \<and>
   hist (onChange s u (onChange s t a)) =
     replace (search_location u) (hist (onChange s t a)) \<and>
   hist (onChange s ''ab'' (onChange s ''a'' (start s root_location))) =
     \<lparr>behind = [root_location], current = search_location ''ab'', ahead = [],
      calls = [Push (search_location ''a''), Replace (search_location ''ab'')]\<rparr>"
  by (simp add: hist_onChange q_onChange q_start_root hist_start)
     (simp add: push_def replace_def)

theorem search_history_witness:
  "q (start store0 root_location) = None \<and>
   hist (onChange store0 ''a'' (start store0 root_location)) =
     push (search_location ''a'') (hist (start store0 root_location)) \<and>
   q (onChange store0 ''a'' (start store0 root_location)) = Some ''a'' \<and>
   hist (onChange store0 ''ab'' (onChange store0 ''a'' (start store0 root_location))) =
     \<lparr>behind = [root_location], current = search_location ''ab'', ahead = [],
      calls = [Push (search_location ''a''), Replace (search_location ''ab'')]\<rparr>"
proof -
  note h = search_history [of "start store0 root_location" store0 "''a''" "''ab''"]
  have 1: "q (start store0 root_location) = None"
    by (rule q_start_root)
  have 2: "hist (onChange store0 ''a'' (start store0 root_location)) =
      push (search_location ''a'') (hist (start store0 root_location))"
    using h [THEN conjunct1] 1 by (rule mp)
  have 3: "q (onChange store0 ''a'' (start store0 root_location)) = Some ''a''"
    by (rule h [THEN conjunct2, THEN conjunct2, THEN conjunct1])
  have 4: "hist (onChange store0 ''ab'' (onChange store0 ''a'' (start store0 root_location))) =
     \<lparr>behind = [root_location], current = search_location ''ab'', ahead = [],
      calls = [Push (search_location ''a''), Replace (search_location ''ab'')]\<rparr>"
    by (rule h [THEN conjunct2, THEN conjunct2, THEN conjunct2, THEN conjunct2])
  from 1 2 3 4 show ?thesis by (intro conjI)
qed

lemma q_navigate_back: "q (navigate_back s a) = searchParams_get (current (go_back (hist a))) ''q''"
  by (simp add: navigate_back_def q_render)

lemma hist_first_search:
  "hist (onChange s t (start s root_location)) =
     \<lparr>behind = [root_location], current = search_location t, ahead = [],
      calls = [Push (search_location t)]\<rparr>"
  by (simp add: hist_onChange q_start_root hist_start push_def)

text \<open>
  C9. After the back or the forward button, \<open>q\<close> is the query parameter of the entry
  arrived at. When that differs from the \<open>q\<close> of the render before, the effect of \<open>App\<close>
  sets the text of the search field to it, and to the empty text when the parameter is
  absent. When it does not differ the text of the field is left as it is: the field does
  not follow the parameter by itself.
\<close>

theorem search_field_resync:
  "q (navigate_back s a) = searchParams_get (current (go_back (hist a))) ''q'' \<and>
   q (navigate_forward s a) = searchParams_get (current (go_forward (hist a))) ''q'' \<and>
   (q (navigate_back s a) \<noteq> q a \<longrightarrow>
      searchField (navigate_back s a) =
        (case q (navigate_back s a) of None \<Rightarrow> [] | Some v \<Rightarrow> v)) \<and>
   (q (navigate_forward s a) \<noteq> q a \<longrightarrow>
      searchField (navigate_forward s a) =
        (case q (navigate_forward s a) of None \<Rightarrow> [] | Some v \<Rightarrow> v)) \<and>
   (q (navigate_back s a) = q a \<longrightarrow> searchField (navigate_back s a) = searchField a) \<and>
   (q (navigate_forward s a) = q a \<longrightarrow>
      searchField (navigate_forward s a) = searchField a)"
  by (simp add: navigate_back_def navigate_forward_def q_render searchField_render)

theorem search_field_resync_witness:
  "q (onChange store0 ''a'' (start store0 root_location)) = Some ''a'' \<and>
   q (navigate_back store0 (onChange store0 ''a'' (start store0 root_location))) = None \<and>
   searchField (navigate_back store0 (onChange store0 ''a'' (start store0 root_location))) = []"
proof -
  let ?a = "onChange store0 ''a'' (start store0 root_location)"
  note h = search_field_resync [of store0 ?a]
  have 1: "q ?a = Some ''a''"
    by (rule q_onChange)
  have 2: "q (navigate_back store0 ?a) = None"
    by (simp add: q_navigate_back hist_first_search go_back_def)
      (simp add: root_location_def searchParams_get_def)
  have "q (navigate_back store0 ?a) \<noteq> q ?a"
    by (simp add: 1 2)
  with h [THEN conjunct2, THEN conjunct2, THEN conjunct1]
  have "searchField (navigate_back store0 ?a) =
      (case q (navigate_back store0 ?a) of None \<Rightarrow> [] | Some v \<Rightarrow> v)"
    by (rule mp)
  then have 3: "searchField (navigate_back store0 ?a) = []"
    by (simp add: 2)
  from 1 2 3 show ?thesis by (intro conjI)
qed

section \<open>Listing and searching the contacts\<close>

lemma includes_str_sublist: "includes_str s t = sublist s t"
  by (induction t) (simp_all add: sublist_Cons_right)

lemma includes_str_iff: "includes_str s t \<longleftrightarrow> (\<exists>pre suf. t = pre @ s @ suf)"
  by (simp add: includes_str_sublist sublist_def)

lemma matches_iff:
  "matches qs c \<longleftrightarrow>
     (\<exists>pre suf. lower (c_first c) = pre @ lower qs @ suf) \<or>
     (\<exists>pre suf. lower (c_last c) = pre @ lower qs @ suf)"
  by (simp add: matches_def includes_str_iff)

lemma lower_upper_case: "lower ''MALIK'' = ''malik''"
  by code_simp

text \<open>
  C4. \<open>getContacts\<close> with a null query returns all contacts of the store. With a query it
  returns exactly the contacts of the store whose \<open>first\<close> or \<open>last\<close>, in lower case,
  contains the query, in lower case, as a contiguous substring. Either result is a
  subsequence of the store's contacts, which are kept in insertion order. The root loader
  returns that list for the query parameter \<open>q\<close> of the request.
\<close>

theorem list_contacts:
  "getContacts None s = records s \<and>
   (c \<in> set (getContacts (Some qs) s) \<longleftrightarrow>
      c \<in> set (records s) \<and>
      ((\<exists>pre suf. lower (c_first c) = pre @ lower qs @ suf) \<or>
       (\<exists>pre suf. lower (c_last c) = pre @ lower qs @ suf))) \<and>
   getContacts (Some qs) s = filter (matches qs) (records s) \<and>
   subseq (getContacts query s) (records s) \<and>
   root_loader s url = (getContacts (searchParams_get url ''q'') s, searchParams_get url ''q'')"
proof -
  have "subseq (getContacts query s) (records s)"
    by (cases query) (simp_all add: getContacts_def)
  then show ?thesis
    by (simp add: getContacts_def matches_iff root_loader_def Let_def)
qed

theorem list_contacts_witness:
  "getContacts None store0 = [alice, bob] \<and>
   getContacts (Some ''mal'') store0 = [bob] \<and>
   getContacts (Some ''A'') store0 = [alice, bob] \<and>
   getContacts (Some ''KAY'') store0 = [alice] \<and>
   getContacts (Some ''zz'') store0 = []"
proof -
  have r: "records store0 = [alice, bob]"
    by (simp add: store0_def)
  have 0: "getContacts None store0 = [alice, bob]"
    using list_contacts [of store0 alice "[]" None root_location, THEN conjunct1] r by simp
  have f1: "filter (matches ''mal'') [alice, bob] = [bob]" by code_simp
  have f2: "filter (matches ''A'') [alice, bob] = [alice, bob]" by code_simp
  have f3: "filter (matches ''KAY'') [alice, bob] = [alice]" by code_simp
  have f4: "filter (matches ''zz'') [alice, bob] = []" by code_simp
  note g = list_contacts [THEN conjunct2, THEN conjunct2, THEN conjunct1]
  have 1: "getContacts (Some ''mal'') store0 = [bob]"
    using g [of "''mal''" store0] r f1 by simp
  have 2: "getContacts (Some ''A'') store0 = [alice, bob]"
    using g [of "''A''" store0] r f2 by simp
  have 3: "getContacts (Some ''KAY'') store0 = [alice]"
    using g [of "''KAY''" store0] r f3 by simp
  have 4: "getContacts (Some ''zz'') store0 = []"
    using g [of "''zz''" store0] r f4 by simp
  from 0 1 2 3 4 show ?thesis by (intro conjI)
qed

section \<open>Updating a contact\<close>

lemma merge_text_fields:
  "c_first (merge obj c) = (case obj ''first'' of None \<Rightarrow> c_first c | Some v \<Rightarrow> text_of v) \<and>
   c_last (merge obj c) = (case obj ''last'' of None \<Rightarrow> c_last c | Some v \<Rightarrow> text_of v) \<and>
   c_twitter (merge obj c) =
     (case obj ''twitter'' of None \<Rightarrow> c_twitter c | Some v \<Rightarrow> text_of v) \<and>
   c_avatar (merge obj c) =
     (case obj ''avatar'' of None \<Rightarrow> c_avatar c | Some v \<Rightarrow> text_of v) \<and>
   c_notes (merge obj c) = (case obj ''notes'' of None \<Rightarrow> c_notes c | Some v \<Rightarrow> text_of v)"
  by (simp add: merge_def text_field_def)

lemma merge_favorite:
  "c_favorite (merge obj c) =
     (case obj ''favorite'' of None \<Rightarrow> c_favorite c | Some v \<Rightarrow> truthy v)"
  by (simp add: merge_def flag_field_def)

lemma ids_updateContact:
  "map c_id (records (snd (updateContact s i m))) = map c_id (records s)"
  by (cases "getContact s i")
     (simp_all add: updateContact_found updateContact_missing merge_id comp_def)

lemma edit_action_found:
  "i \<noteq> [] \<Longrightarrow> getContact s i = Some c \<Longrightarrow>
   edit_action s (Some i) fd =
     (Inr (Redirect (''/contacts/'' @ i)), snd (updateContact s i (fromEntries fd)))"
  by (simp add: edit_action_def invariant_present updateContact_found Let_def)

lemma fromEntries_last:
  "fromEntries (fd @ [(key, v)]) key = Some (Text v)"
  by (simp add: fromEntries_def)

lemma fromEntries_absent:
  "key \<notin> fst ` set fd \<Longrightarrow> fromEntries fd key = None"
  by (simp add: fromEntries_def map_of_eq_None_iff)

text \<open>
  C5. For a contact that exists, \<open>updateContact\<close> returns and stores the merged record:
  \<open>id\<close> and \<open>createdAt\<close> are those of the old record, whatever the update holds; every
  field that the update supplies has the supplied value (a text for a text field, a
  boolean for \<open>favorite\<close>) and every field that it does not supply has its old value; the
  other contacts, and the order of the ids, are unchanged. Updating with
  \<open>favorite = true\<close> and reading the contact again gives the old record with \<open>favorite\<close>
  true, also (for a non-empty id) through the action of the favorite button and the
  loader. The edit action stores the merge of the object made of all entries of the
  submitted form, in which the last entry of a name gives its value and a name without
  an entry is not supplied.
\<close>

theorem update_merges:
  "getContact s i = Some c \<longrightarrow>
     fst (updateContact s i obj) = Inr (merge obj c) \<and>
     getContact (snd (updateContact s i obj)) i = Some (merge obj c) \<and>
     c_id (merge obj c) = c_id c \<and>
     c_createdAt (merge obj c) = c_createdAt c \<and>
     c_first (merge obj c) =
       (case obj ''first'' of None \<Rightarrow> c_first c | Some v \<Rightarrow> text_of v) \<and>
     c_last (merge obj c) =
       (case obj ''last'' of None \<Rightarrow> c_last c | Some v \<Rightarrow> text_of v) \<and>
     c_twitter (merge obj c) =
       (case obj ''twitter'' of None \<Rightarrow> c_twitter c | Some v \<Rightarrow> text_of v) \<and>
     c_avatar (merge obj c) =
       (case obj ''avatar'' of None \<Rightarrow> c_avatar c | Some v \<Rightarrow> text_of v) \<and>
     c_notes (merge obj c) =
       (case obj ''notes'' of None \<Rightarrow> c_notes c | Some v \<Rightarrow> text_of v) \<and>
     c_favorite (merge obj c) =
       (case obj ''favorite'' of None \<Rightarrow> c_favorite c | Some v \<Rightarrow> truthy v) \<and>
     text_of (Text t) = t \<and> truthy (Flag b) = b \<and>
     (\<forall>j. j \<noteq> i \<longrightarrow> getContact (snd (updateContact s i obj)) j = getContact s j) \<and>
     map c_id (records (snd (updateContact s i obj))) = map c_id (records s) \<and>
     favorite_update True = [''favorite'' \<mapsto> Flag True] \<and>
     getContact (snd (updateContact s i (favorite_update True))) i =
       Some (c\<lparr>c_favorite := True\<rparr>) \<and>
     (i \<noteq> [] \<longrightarrow>
        contact_loader (snd (contact_action s (Some i) [(''favorite'', ''true'')])) (Some i) =
          Inr (c\<lparr>c_favorite := True\<rparr>) \<and>
        contact_loader (snd (edit_action s (Some i) fd)) (Some i) =
          Inr (merge (fromEntries fd) c)) \<and>
     fromEntries (fd @ [(key, t)]) key = Some (Text t) \<and>
     (key \<notin> fst ` set fd \<longrightarrow> fromEntries fd key = None)"
proof
  assume g: "getContact s i = Some c"
  have a: "fst (updateContact s i obj) = Inr (merge obj c)"
    using g by (simp add: updateContact_found)
  have b: "getContact (snd (updateContact s i m')) i = Some (merge m' c)" for m'
    using g by (rule getContact_updateContact)
  have c: "\<forall>j. j \<noteq> i \<longrightarrow> getContact (snd (updateContact s i obj)) j = getContact s j"
    by (simp add: getContact_updateContact_other)
  have d: "contact_loader (snd (contact_action s (Some i) [(''favorite'', ''true'')])) (Some i) =
          Inr (c\<lparr>c_favorite := True\<rparr>)" if "i \<noteq> []"
    using that g by (simp add: contact_loader_after_action formData_get_def)
  have e: "contact_loader (snd (edit_action s (Some i) fd)) (Some i) =
          Inr (merge (fromEntries fd) c)" if "i \<noteq> []"
    using that g by (simp add: edit_action_found b contact_loader_found)
  have f: "getContact (snd (updateContact s i (favorite_update True))) i =
       Some (c\<lparr>c_favorite := True\<rparr>)"
    using b [of "favorite_update True"] by (simp add: merge_favorite_update)
  have k: "key \<notin> fst ` set fd \<longrightarrow> fromEntries fd key = None"
    by (simp add: fromEntries_absent)
  note fields = merge_text_fields [of obj c]
  show "fst (updateContact s i obj) = Inr (merge obj c) \<and>
     getContact (snd (updateContact s i obj)) i = Some (merge obj c) \<and>
     c_id (merge obj c) = c_id c \<and>
     c_createdAt (merge obj c) = c_createdAt c \<and>
     c_first (merge obj c) =
       (case obj ''first'' of None \<Rightarrow> c_first c | Some v \<Rightarrow> text_of v) \<and>
     c_last (merge obj c) =
       (case obj ''last'' of None \<Rightarrow> c_last c | Some v \<Rightarrow> text_of v) \<and>
     c_twitter (merge obj c) =
       (case obj ''twitter'' of None \<Rightarrow> c_twitter c | Some v \<Rightarrow> text_of v) \<and>
     c_avatar (merge obj c) =
       (case obj ''avatar'' of None \<Rightarrow> c_avatar c | Some v \<Rightarrow> text_of v) \<and>
     c_notes (merge obj c) =
       (case obj ''notes'' of None \<Rightarrow> c_notes c | Some v \<Rightarrow> text_of v) \<and>
     c_favorite (merge obj c) =
       (case obj ''favorite'' of None \<Rightarrow> c_favorite c | Some v \<Rightarrow> truthy v) \<and>
     text_of (Text t) = t \<and> truthy (Flag b) = b \<and>
     (\<forall>j. j \<noteq> i \<longrightarrow> getContact (snd (updateContact s i obj)) j = getContact s j) \<and>
     map c_id (records (snd (updateContact s i obj))) = map c_id (records s) \<and>
     favorite_update True = [''favorite'' \<mapsto> Flag True] \<and>
     getContact (snd (updateContact s i (favorite_update True))) i =
       Some (c\<lparr>c_favorite := True\<rparr>) \<and>
     (i \<noteq> [] \<longrightarrow>
        contact_loader (snd (contact_action s (Some i) [(''favorite'', ''true'')])) (Some i) =
          Inr (c\<lparr>c_favorite := True\<rparr>) \<and>
        contact_loader (snd (edit_action s (Some i) fd)) (Some i) =
          Inr (merge (fromEntries fd) c)) \<and>
     fromEntries (fd @ [(key, t)]) key = Some (Text t) \<and>
     (key \<notin> fst ` set fd \<longrightarrow> fromEntries fd key = None)"
    using a b [of obj] c d e f k fields
    by (simp add: merge_id merge_createdAt merge_favorite ids_updateContact
        favorite_update_def fromEntries_last)
qed

theorem update_merges_witness:
  "getContact store0 ''c'' = Some alice \<and>
   fst (updateContact store0 ''c'' (favorite_update True)) =
     Inr (alice\<lparr>c_favorite := True\<rparr>) \<and>
   getContact (snd (updateContact store0 ''c'' (favorite_update True))) ''c'' =
     Some (alice\<lparr>c_favorite := True\<rparr>) \<and>
   getContact (snd (updateContact store0 ''c'' (favorite_update True))) ''cx'' = Some bob \<and>
   contact_loader
     (snd (edit_action store0 (Some ''c'')
             [(''id'', ''zz''), (''first'', ''A''), (''first'', ''Al''), (''notes'', [])]))
     (Some ''c'') = Inr (alice\<lparr>c_first := ''Al'', c_notes := []\<rparr>)"
proof -
  let ?fd = "[(''id'', ''zz''), (''first'', ''A''), (''first'', ''Al''), (''notes'', [])]"
  have g: "getContact store0 ''c'' = Some alice"
    by (rule getContact_store0_alice)
  note h = update_merges
    [of store0 "''c''" alice "favorite_update True" "[]" True ?fd "[]", THEN mp, OF g]
  have m: "merge (fromEntries ?fd) alice = alice\<lparr>c_first := ''Al'', c_notes := []\<rparr>"
    by (simp add: merge_def text_field_def flag_field_def fromEntries_def alice_def)
  have "fst (updateContact store0 ''c'' (favorite_update True)) =
      Inr (merge (favorite_update True) alice)"
    using h by (elim conjE)
  then have 1: "fst (updateContact store0 ''c'' (favorite_update True)) =
      Inr (alice\<lparr>c_favorite := True\<rparr>)"
    by (simp only: merge_favorite_update)
  have 2: "getContact (snd (updateContact store0 ''c'' (favorite_update True))) ''c'' =
      Some (alice\<lparr>c_favorite := True\<rparr>)"
    using h by (elim conjE)
  have "\<forall>j. j \<noteq> ''c'' \<longrightarrow>
      getContact (snd (updateContact store0 ''c'' (favorite_update True))) j =
      getContact store0 j"
    using h by (elim conjE)
  then have "getContact (snd (updateContact store0 ''c'' (favorite_update True))) ''cx'' =
      getContact store0 ''cx''"
    by simp
  then have 3: "getContact (snd (updateContact store0 ''c'' (favorite_update True))) ''cx'' =
      Some bob"
    by (simp only: getContact_store0_bob)
  have "''c'' \<noteq> [] \<longrightarrow>
      contact_loader (snd (contact_action store0 (Some ''c'') [(''favorite'', ''true'')]))
        (Some ''c'') = Inr (alice\<lparr>c_favorite := True\<rparr>) \<and>
      contact_loader (snd (edit_action store0 (Some ''c'') ?fd)) (Some ''c'') =
        Inr (merge (fromEntries ?fd) alice)"
    using h by (elim conjE)
  then have "contact_loader (snd (edit_action store0 (Some ''c'') ?fd)) (Some ''c'') =
      Inr (merge (fromEntries ?fd) alice)"
    by simp
  then have 4: "contact_loader (snd (edit_action store0 (Some ''c'') ?fd)) (Some ''c'') =
      Inr (alice\<lparr>c_first := ''Al'', c_notes := []\<rparr>)"
    by (simp only: m)
  from g 1 2 3 4 show ?thesis by (intro conjI)
qed

lemma getContact_deleteContact:
  "getContact (snd (deleteContact s i)) i = None"
  by (cases "getContact s i")
     (simp_all add: deleteContact_found deleteContact_missing,
      simp add: getContact_def find_filter_removed)

lemma getContact_deleteContact_other:
  "j \<noteq> i \<Longrightarrow> getContact (snd (deleteContact s i)) j = getContact s j"
  by (cases "getContact s i")
     (simp_all add: deleteContact_found deleteContact_missing,
      simp add: getContact_def find_filter_other)

lemma edit_loader_eq: "edit_loader s p = contact_loader s p"
  by (simp add: edit_loader_def contact_loader_def)

text \<open>
  C6. For an id that no contact of the store has, \<open>getContact\<close> finds nothing, and
  \<open>updateContact\<close> and \<open>deleteContact\<close> fail with \<open>NotFoundError\<close>; when the id is not
  empty (an empty one is stopped by \<open>invariant\<close> before the store is reached) the loaders
  and the three actions fail with \<open>NotFoundError\<close>. The failure is a result of the
  operation and the store is the one it was given, so whatever runs next reads the
  unchanged store. Deleting a contact that exists succeeds; after it \<open>getContact\<close> finds
  nothing for the id, the loader fails with \<open>NotFoundError\<close>, the list of all contacts has
  no contact of that id, and every other contact is still found.
\<close>

theorem not_found:
  "(i \<notin> c_id ` set (records s) \<longrightarrow>
      getContact s i = None \<and>
      updateContact s i m = (Inl NotFoundError, s) \<and>
      deleteContact s i = (Inl NotFoundError, s) \<and>
      (i \<noteq> [] \<longrightarrow>
         contact_loader s (Some i) = Inl NotFoundError \<and>
         edit_loader s (Some i) = Inl NotFoundError \<and>
         contact_action s (Some i) fd = (Inl NotFoundError, s) \<and>
         edit_action s (Some i) fd = (Inl NotFoundError, s) \<and>
         destroy_action s (Some i) = (Inl NotFoundError, s))) \<and>
   (i \<in> c_id ` set (records s) \<longrightarrow>
      fst (deleteContact s i) = Inr () \<and>
      getContact (snd (deleteContact s i)) i = None \<and>
      i \<notin> c_id ` set (getContacts None (snd (deleteContact s i))) \<and>
      (\<forall>j. j \<noteq> i \<longrightarrow> getContact (snd (deleteContact s i)) j = getContact s j) \<and>
      (i \<noteq> [] \<longrightarrow>
         destroy_action s (Some i) = (Inr (Redirect ''/''), snd (deleteContact s i)) \<and>
         contact_loader (snd (deleteContact s i)) (Some i) = Inl NotFoundError))"
proof (intro conjI impI)
  assume a: "i \<notin> c_id ` set (records s)"
  then show n: "getContact s i = None"
    by (simp add: getContact_None_iff)
  show "updateContact s i m = (Inl NotFoundError, s)"
    using n by (rule updateContact_missing)
  show "deleteContact s i = (Inl NotFoundError, s)"
    using n by (rule deleteContact_missing)
  assume e: "i \<noteq> []"
  show "contact_loader s (Some i) = Inl NotFoundError"
    using e n by (rule contact_loader_missing)
  then show "edit_loader s (Some i) = Inl NotFoundError"
    by (simp add: edit_loader_eq)
  show "contact_action s (Some i) fd = (Inl NotFoundError, s)"
    using e n by (simp add: contact_action_def invariant_present updateContact_missing)
  show "edit_action s (Some i) fd = (Inl NotFoundError, s)"
    using e n by (simp add: edit_action_def invariant_present updateContact_missing)
  show "destroy_action s (Some i) = (Inl NotFoundError, s)"
    using e n by (simp add: destroy_action_def invariant_present deleteContact_missing)
next
  assume a: "i \<in> c_id ` set (records s)"
  then obtain c where g: "getContact s i = Some c"
    using getContact_None_iff [of s i] by (cases "getContact s i") auto
  show "fst (deleteContact s i) = Inr ()"
    using g by (simp add: deleteContact_found)
  show d: "getContact (snd (deleteContact s i)) i = None"
    by (rule getContact_deleteContact)
  then show "i \<notin> c_id ` set (getContacts None (snd (deleteContact s i)))"
    by (simp add: getContact_None_iff getContacts_def)
  show "\<forall>j. j \<noteq> i \<longrightarrow> getContact (snd (deleteContact s i)) j = getContact s j"
    by (simp add: getContact_deleteContact_other)
  assume e: "i \<noteq> []"
  show "destroy_action s (Some i) = (Inr (Redirect ''/''), snd (deleteContact s i))"
    using e g by (simp add: destroy_action_def invariant_present deleteContact_found)
  show "contact_loader (snd (deleteContact s i)) (Some i) = Inl NotFoundError"
    using e d by (rule contact_loader_missing)
qed

theorem not_found_witness:
  "''zz'' \<notin> c_id ` set (records store0) \<and> ''c'' \<in> c_id ` set (records store0) \<and>
   updateContact store0 ''zz'' (favorite_update True) = (Inl NotFoundError, store0) \<and>
   deleteContact store0 ''zz'' = (Inl NotFoundError, store0) \<and>
   contact_loader store0 (Some ''zz'') = Inl NotFoundError \<and>
   contact_action store0 (Some ''zz'') [] = (Inl NotFoundError, store0) \<and>
   fst (deleteContact store0 ''c'') = Inr () \<and>
   getContact (snd (deleteContact store0 ''c'')) ''c'' = None \<and>
   contact_loader (snd (deleteContact store0 ''c'')) (Some ''c'') = Inl NotFoundError \<and>
   getContact (snd (deleteContact store0 ''c'')) ''cx'' = Some bob"
proof -
  have a: "''zz'' \<notin> c_id ` set (records store0)"
    by (simp add: store0_def alice_def bob_def)
  have b: "''c'' \<in> c_id ` set (records store0)"
    by (simp add: store0_def alice_def bob_def)
  note h1 = not_found [of "''zz''" store0 "favorite_update True" "[]", THEN conjunct1, THEN mp, OF a]
  note h2 = not_found [of "''c''" store0 "favorite_update True" "[]", THEN conjunct2, THEN mp, OF b]
  from h1 have 1: "updateContact store0 ''zz'' (favorite_update True) = (Inl NotFoundError, store0)"
    by simp
  from h1 have 2: "deleteContact store0 ''zz'' = (Inl NotFoundError, store0)"
    by simp
  from h1 have 3: "contact_loader store0 (Some ''zz'') = Inl NotFoundError"
    by simp
  from h1 have 4: "contact_action store0 (Some ''zz'') [] = (Inl NotFoundError, store0)"
    by simp
  from h2 have 5: "fst (deleteContact store0 ''c'') = Inr ()"
    by simp
  from h2 have 6: "getContact (snd (deleteContact store0 ''c'')) ''c'' = None"
    by simp
  from h2 have 7: "contact_loader (snd (deleteContact store0 ''c'')) (Some ''c'') = Inl NotFoundError"
    by simp
  from h2 have "getContact (snd (deleteContact store0 ''c'')) ''cx'' = getContact store0 ''cx''"
    by simp
  then have 8: "getContact (snd (deleteContact store0 ''c'')) ''cx'' = Some bob"
    by (simp add: getContact_store0_bob)
  from a b 1 2 3 4 5 6 7 8 show ?thesis by (intro conjI)
qed

end
